theory Spec2Isabelle
  imports Main "HOL-Library.Word" "HOL-Library.Sublist"
begin

section \<open>JavaScript strings\<close>

text \<open>
  A JavaScript string is a sequence of UTF-16 code units; \<open>length\<close>, \<open>trim\<close>, \<open>indexOf\<close>
  and regular expressions without the \<open>u\<close> flag all work on code units. The file entries
  a \<open>FormData\<close> can hold are not modelled: the source casts every entry \<open>as string\<close>.
\<close>

type_synonym jschar = "16 word"
type_synonym jsstring = "jschar list"

definition ch :: "char \<Rightarrow> jschar" where
  "ch c = of_nat (of_char c)"

definition str :: "string \<Rightarrow> jsstring" where
  "str cs = map ch cs"

text \<open>
  WhiteSpace and LineTerminator of ECMAScript: what \<open>trim\<close> strips and what \<open>\s\<close> matches.
\<close>

definition white_space :: "jschar list" where
  "white_space =
     [0x0009, 0x000A, 0x000B, 0x000C, 0x000D, 0x0020, 0x00A0, 0x1680,
      0x2000, 0x2001, 0x2002, 0x2003, 0x2004, 0x2005, 0x2006, 0x2007, 0x2008, 0x2009, 0x200A,
      0x2028, 0x2029, 0x202F, 0x205F, 0x3000, 0xFEFF]"

definition is_space :: "jschar \<Rightarrow> bool" where
  "is_space c = (c \<in> set white_space)"

text \<open>The characters of \<open>\w\<close>: \<open>[A-Za-z0-9_]\<close>.\<close>

definition is_word_char :: "jschar \<Rightarrow> bool" where
  "is_word_char c =
     ((0x61 \<le> c \<and> c \<le> 0x7A) \<or> (0x41 \<le> c \<and> c \<le> 0x5A) \<or> (0x30 \<le> c \<and> c \<le> 0x39) \<or> c = 0x5F)"

definition trim :: "jsstring \<Rightarrow> jsstring" where
  "trim s = rev (dropWhile is_space (rev (dropWhile is_space s)))"

section \<open>Regular expressions\<close>

text \<open>
  The constructs the patterns of the repository use, with the backtracking semantics of
  ECMAScript. Case folding (the \<open>i\<close> flag, without \<open>u\<close>) is written out for the ASCII
  letters only: a code unit from 128 on never folds to an ASCII one, and every pattern
  character and class member matched under \<open>i\<close> in the source is ASCII or caseless.
\<close>

definition canonicalize :: "jschar \<Rightarrow> jschar" where
  "canonicalize c = (if 0x61 \<le> c \<and> c \<le> 0x7A then c - 0x20 else c)"

definition case_variants :: "jschar \<Rightarrow> jschar list" where
  "case_variants c =
     (if 0x61 \<le> c \<and> c \<le> 0x7A then [c, c - 0x20]
      else if 0x41 \<le> c \<and> c \<le> 0x5A then [c, c + 0x20]
      else [c])"

datatype class_item = Single jschar | Range jschar jschar | Space | WordChar

datatype regex =
    Eps
  | Chr jschar
  | Cls bool "class_item list"
  | AssertStart
  | AssertEnd
  | WordBoundary
  | NegLookahead regex
  | Seq regex regex
  | Star regex

fun item_has :: "class_item \<Rightarrow> jschar \<Rightarrow> bool" where
  "item_has (Single a) c = (c = a)"
| "item_has (Range lo hi) c = (lo \<le> c \<and> c \<le> hi)"
| "item_has Space c = is_space c"
| "item_has WordChar c = is_word_char c"

definition class_has :: "bool \<Rightarrow> class_item list \<Rightarrow> jschar \<Rightarrow> bool" where
  "class_has ic items c =
     list_ex (\<lambda>it. list_ex (item_has it) (if ic then case_variants c else [c])) items"

text \<open>
  A position is the code unit before it (none at the start of the input) and the rest of
  the input. \<open>matches ic r p\<close> lists the positions where a match of \<open>r\<close> that starts at
  \<open>p\<close> can end, in the order in which backtracking tries them: the head is the match the
  engine reports. \<open>Cls True\<close> is a negated class; a greedy star refuses an iteration that
  consumes nothing.
\<close>

type_synonym pos = "jschar option \<times> jsstring"

fun matches :: "bool \<Rightarrow> regex \<Rightarrow> pos \<Rightarrow> pos list" where
  "matches ic Eps p = [p]"
| "matches ic (Chr a) (prev, rest) =
     (case rest of
        [] \<Rightarrow> []
      | c # cs \<Rightarrow>
          if (if ic then canonicalize c = canonicalize a else c = a) then [(Some c, cs)] else [])"
| "matches ic (Cls neg items) (prev, rest) =
     (case rest of
        [] \<Rightarrow> []
      | c # cs \<Rightarrow> if class_has ic items c \<noteq> neg then [(Some c, cs)] else [])"
| "matches ic AssertStart (prev, rest) = (if prev = None then [(prev, rest)] else [])"
| "matches ic AssertEnd (prev, rest) = (if rest = [] then [(prev, rest)] else [])"
| "matches ic WordBoundary (prev, rest) =
     (let a = (case prev of None \<Rightarrow> False | Some c \<Rightarrow> is_word_char c);
          b = (case rest of [] \<Rightarrow> False | c # _ \<Rightarrow> is_word_char c)
      in if a \<noteq> b then [(prev, rest)] else [])"
| "matches ic (NegLookahead r) p = (if matches ic r p = [] then [p] else [])"
| "matches ic (Seq r1 r2) p = concat (map (matches ic r2) (matches ic r1 p))"
| "matches ic (Star r) p =
     concat (map (\<lambda>q. if length (snd q) < length (snd p) then matches ic (Star r) q else [])
       (matches ic r p)) @ [p]"

declare matches.simps(9) [simp del]

definition match_at :: "bool \<Rightarrow> regex \<Rightarrow> pos \<Rightarrow> pos option" where
  "match_at ic r p = (case matches ic r p of [] \<Rightarrow> None | q # _ \<Rightarrow> Some q)"

text \<open>
  \<open>String.prototype.replace\<close> with a global pattern and a replacement without \<open>$\<close>:
  scan from the left; a match is replaced and the scan goes on behind it; an empty match
  is replaced too and the scan moves one code unit on; without a match the code unit is
  kept.
\<close>

function replace_from ::
  "bool \<Rightarrow> regex \<Rightarrow> jsstring \<Rightarrow> jschar option \<Rightarrow> jsstring \<Rightarrow> jsstring" where
  "replace_from ic r rep prev rest =
     (case match_at ic r (prev, rest) of
        Some (prev', rest') \<Rightarrow>
          if length rest' < length rest then rep @ replace_from ic r rep prev' rest'
          else rep @ (case rest of [] \<Rightarrow> [] | c # cs \<Rightarrow> c # replace_from ic r rep (Some c) cs)
      | None \<Rightarrow> (case rest of [] \<Rightarrow> [] | c # cs \<Rightarrow> c # replace_from ic r rep (Some c) cs))"
  by pat_completeness auto
termination
  by (relation "measure (\<lambda>(ic, r, rep, prev, rest). length rest)") auto

declare replace_from.simps [simp del]

definition replace_all :: "bool \<Rightarrow> regex \<Rightarrow> jsstring \<Rightarrow> jsstring \<Rightarrow> jsstring" where
  "replace_all ic r rep s = replace_from ic r rep None s"

text \<open>\<open>RegExp.prototype.test\<close> of a pattern without \<open>g\<close>: a match starting anywhere.\<close>

fun search :: "bool \<Rightarrow> regex \<Rightarrow> jschar option \<Rightarrow> jsstring \<Rightarrow> bool" where
  "search ic r prev [] = (matches ic r (prev, []) \<noteq> [])"
| "search ic r prev (c # cs) = (matches ic r (prev, c # cs) \<noteq> [] \<or> search ic r (Some c) cs)"

definition regex_test :: "bool \<Rightarrow> regex \<Rightarrow> jsstring \<Rightarrow> bool" where
  "regex_test ic r s = search ic r None s"

definition lit :: "string \<Rightarrow> regex" where
  "lit cs = foldr (\<lambda>c r. Seq (Chr c) r) (str cs) Eps"

definition seqs :: "regex list \<Rightarrow> regex" where
  "seqs rs = foldr Seq rs Eps"

definition plus :: "regex \<Rightarrow> regex list" where
  "plus r = [r, Star r]"

section \<open>Security utilities (app/lib/utils/security.ts)\<close>

text \<open>\<^verbatim>\<open>/<script\b[^<]*(?:(?!<\/script>)<[^<]*)*<\/script>/gi\<close>\<close>

definition script_block :: regex where
  "script_block =
     seqs [lit ''<script'', WordBoundary, Star (Cls True [Single (ch CHR ''<'')]),
           Star (seqs [NegLookahead (lit ''</script>''), Chr (ch CHR ''<''),
                       Star (Cls True [Single (ch CHR ''<'')])]),
           lit ''</script>'']"

text \<open>\<^verbatim>\<open>/<[^>]*>/g\<close>\<close>

definition any_tag :: regex where
  "any_tag = seqs [Chr (ch CHR ''<''), Star (Cls True [Single (ch CHR ''>'')]), Chr (ch CHR ''>'')]"

text \<open>\<^verbatim>\<open>/javascript:/gi\<close>\<close>

definition javascript_scheme :: regex where
  "javascript_scheme = lit ''javascript:''"

text \<open>\<^verbatim>\<open>/on\w+\s*=/gi\<close>\<close>

definition event_handler :: regex where
  "event_handler =
     seqs (lit ''on'' # plus (Cls False [WordChar]) @ [Star (Cls False [Space]), Chr (ch CHR ''='')])"

definition sanitizeHTML :: "jsstring \<Rightarrow> jsstring" where
  "sanitizeHTML input =
     replace_all True event_handler []
       (replace_all True javascript_scheme []
         (replace_all False any_tag []
           (replace_all True script_block [] input)))"

text \<open>\<^verbatim>\<open>/^[^\s@]+@[^\s@]+\.[^\s@]+$/\<close>\<close>

definition not_space_or_at :: regex where
  "not_space_or_at = Cls True [Space, Single (ch CHR ''@'')]"

definition emailRegex :: regex where
  "emailRegex =
     seqs ([AssertStart] @ plus not_space_or_at @ [Chr (ch CHR ''@'')]
           @ plus not_space_or_at @ [Chr (ch CHR ''.'')]
           @ plus not_space_or_at @ [AssertEnd])"

definition isValidEmail :: "jsstring \<Rightarrow> bool" where
  "isValidEmail email = regex_test False emailRegex email"

text \<open>The code units that \<^verbatim>\<open>[^\s@]\<close> accepts.\<close>

definition email_char :: "jschar \<Rightarrow> bool" where
  "email_char c = (\<not> is_space c \<and> c \<noteq> ch CHR ''@'')"

text \<open>\<^verbatim>\<open>/[^a-zA-Z0-9.-]/g\<close> and \<^verbatim>\<open>/\.\./g\<close>\<close>

definition unsafe_file_char :: regex where
  "unsafe_file_char =
     Cls True [Range (ch CHR ''a'') (ch CHR ''z''), Range (ch CHR ''A'') (ch CHR ''Z''),
               Range (ch CHR ''0'') (ch CHR ''9''), Single (ch CHR ''.''), Single (ch CHR ''-'')]"

definition dot_dot :: regex where
  "dot_dot = seqs [Chr (ch CHR ''.''), Chr (ch CHR ''.'')]"

definition sanitizeFileName :: "jsstring \<Rightarrow> jsstring" where
  "sanitizeFileName filename =
     replace_all False dot_dot (str ''_'') (replace_all False unsafe_file_char (str ''_'') filename)"

text \<open>ASCII letters, digits, \<open>.\<close>, \<open>-\<close> and \<open>_\<close>.\<close>

definition file_char :: "jschar \<Rightarrow> bool" where
  "file_char c =
     ((ch CHR ''a'' \<le> c \<and> c \<le> ch CHR ''z'') \<or> (ch CHR ''A'' \<le> c \<and> c \<le> ch CHR ''Z'') \<or>
      (ch CHR ''0'' \<le> c \<and> c \<le> ch CHR ''9'') \<or> c = ch CHR ''.'' \<or> c = ch CHR ''-'' \<or>
      c = ch CHR ''_'')"

text \<open>
  \<open>checkRateLimit\<close> reads and writes \<open>sessionStorage\<close> and reads the clock. The storage
  maps a key to the JSON text of an item; the model keeps the parsed value: the array of
  timestamps that \<open>checkRateLimit\<close> itself writes, or \<open>NotAnArray\<close> for a text that
  \<open>JSON.parse\<close> refuses or whose value has no \<open>filter\<close>, where the source throws. A missing
  key reads as \<open>null\<close> and stands for the empty array. \<open>now\<close> is the value of \<open>Date.now()\<close>.
\<close>

datatype stored = Timestamps "int list" | NotAnArray

datatype js_error = Thrown

type_synonym storage = "jsstring \<rightharpoonup> stored"

definition checkRateLimit ::
  "int \<Rightarrow> storage \<Rightarrow> jsstring \<Rightarrow> int \<Rightarrow> int \<Rightarrow> js_error + (bool \<times> storage)" where
  "checkRateLimit now sessionStorage key maxAttempts windowMs =
     (case (case sessionStorage key of None \<Rightarrow> Timestamps [] | Some item \<Rightarrow> item) of
        NotAnArray \<Rightarrow> Inl Thrown
      | Timestamps attempts \<Rightarrow>
          (let recentAttempts = filter (\<lambda>timestamp. now - timestamp < windowMs) attempts
           in if int (length recentAttempts) \<ge> maxAttempts then Inr (False, sessionStorage)
              else Inr (True, sessionStorage(key \<mapsto> Timestamps (recentAttempts @ [now])))))"

text \<open>A run of calls with the defaults of the source spelled out, one per clock reading.\<close>

fun rate_limit_calls :: "storage \<Rightarrow> jsstring \<Rightarrow> int list \<Rightarrow> (js_error + bool) list" where
  "rate_limit_calls st key [] = []"
| "rate_limit_calls st key (now # later) =
     (case checkRateLimit now st key 5 60000 of
        Inl e \<Rightarrow> [Inl e]
      | Inr (ok, st') \<Rightarrow> Inr ok # rate_limit_calls st' key later)"

section \<open>The backend that the poll actions call\<close>

text \<open>
  The actions hold no state of their own: rows live in the tables \<open>polls\<close> and \<open>votes\<close> of
  the backend, which is not part of the repository. It is modelled as two lists of rows
  and the trace of the calls made to it, with the filters of each call as the source writes
  them. What a request cannot decide is the environment: the identity (and the error)
  that \<open>auth.getUser()\<close> answers, whether the lookup of a row fails, the error (if any)
  that the write of the request reports, and the id given to a new row. A write that
  reports an error changes no row.
\<close>

record poll =
  p_id :: jsstring
  p_user_id :: jsstring
  p_question :: jsstring
  p_options :: "jsstring list"

record vote =
  v_poll_id :: jsstring
  v_user_id :: "jsstring option"
  v_option_index :: int

datatype call =
    AuthGetUser
  | PollsInsert jsstring jsstring "jsstring list"
  | PollsSelectOwner jsstring
  | PollsDelete jsstring
  | PollsUpdate jsstring "jsstring list" jsstring jsstring
  | VotesInsert jsstring "jsstring option" int
  | RevalidatePath jsstring

record db =
  polls :: "poll list"
  votes :: "vote list"
  calls :: "call list"

record env =
  auth_user :: "jsstring option"
  auth_error :: "jsstring option"
  select_error :: bool
  write_error :: "jsstring option"
  new_id :: jsstring

definition called :: "call \<Rightarrow> db \<Rightarrow> db" where
  "called c d = d\<lparr>calls := calls d @ [c]\<rparr>"

text \<open>\<^verbatim>\<open>supabase.auth.getUser()\<close>: the id of \<open>data.user\<close> and the message of \<open>error\<close>.\<close>

definition auth_getUser :: "env \<Rightarrow> db \<Rightarrow> (jsstring option \<times> jsstring option) \<times> db" where
  "auth_getUser e d = ((auth_user e, auth_error e), called AuthGetUser d)"

text \<open>\<^verbatim>\<open>from("polls").insert([{ user_id, question, options }])\<close>\<close>

definition insert_poll ::
  "env \<Rightarrow> jsstring \<Rightarrow> jsstring \<Rightarrow> jsstring list \<Rightarrow> db \<Rightarrow> jsstring option \<times> db" where
  "insert_poll e uid question options d =
     (let d' = called (PollsInsert uid question options) d
      in case write_error e of
           Some m \<Rightarrow> (Some m, d')
         | None \<Rightarrow>
             (None, d'\<lparr>polls := polls d' @
                [\<lparr>p_id = new_id e, p_user_id = uid, p_question = question, p_options = options\<rparr>]\<rparr>))"

text \<open>
  \<^verbatim>\<open>from("polls").select("user_id").eq("id", id).single()\<close>: \<open>data\<close> is the row when
  exactly one row has the id, and \<open>null\<close> otherwise or when the lookup fails.
\<close>

definition owner_of :: "poll list \<Rightarrow> jsstring \<Rightarrow> jsstring option" where
  "owner_of ps pid = (case filter (\<lambda>p. p_id p = pid) ps of [p] \<Rightarrow> Some (p_user_id p) | _ \<Rightarrow> None)"

definition select_poll_owner :: "env \<Rightarrow> jsstring \<Rightarrow> db \<Rightarrow> jsstring option \<times> db" where
  "select_poll_owner e pid d =
     ((if select_error e then None else owner_of (polls d) pid), called (PollsSelectOwner pid) d)"

text \<open>\<^verbatim>\<open>from("polls").delete().eq("id", id)\<close>\<close>

definition delete_poll :: "env \<Rightarrow> jsstring \<Rightarrow> db \<Rightarrow> jsstring option \<times> db" where
  "delete_poll e pid d =
     (let d' = called (PollsDelete pid) d
      in case write_error e of
           Some m \<Rightarrow> (Some m, d')
         | None \<Rightarrow> (None, d'\<lparr>polls := filter (\<lambda>p. p_id p \<noteq> pid) (polls d')\<rparr>))"

text \<open>\<^verbatim>\<open>from("polls").update({ question, options }).eq("id", pollId).eq("user_id", user.id)\<close>\<close>

definition update_poll ::
  "env \<Rightarrow> jsstring \<Rightarrow> jsstring list \<Rightarrow> jsstring \<Rightarrow> jsstring \<Rightarrow> db \<Rightarrow> jsstring option \<times> db" where
  "update_poll e question options pid uid d =
     (let d' = called (PollsUpdate question options pid uid) d
      in case write_error e of
           Some m \<Rightarrow> (Some m, d')
         | None \<Rightarrow>
             (None, d'\<lparr>polls :=
                map (\<lambda>p. if p_id p = pid \<and> p_user_id p = uid
                          then p\<lparr>p_question := question, p_options := options\<rparr> else p)
                  (polls d')\<rparr>))"

text \<open>\<^verbatim>\<open>from("votes").insert([{ poll_id, user_id, option_index }])\<close>\<close>

definition insert_vote ::
  "env \<Rightarrow> jsstring \<Rightarrow> jsstring option \<Rightarrow> int \<Rightarrow> db \<Rightarrow> jsstring option \<times> db" where
  "insert_vote e pid uid idx d =
     (let d' = called (VotesInsert pid uid idx) d
      in case write_error e of
           Some m \<Rightarrow> (Some m, d')
         | None \<Rightarrow>
             (None, d'\<lparr>votes := votes d' @
                [\<lparr>v_poll_id = pid, v_user_id = uid, v_option_index = idx\<rparr>]\<rparr>))"

definition revalidatePath :: "jsstring \<Rightarrow> db \<Rightarrow> db" where
  "revalidatePath path d = called (RevalidatePath path) d"

section \<open>Form data and arrays\<close>

type_synonym form_data = "(jsstring \<times> jsstring) list"

definition form_get :: "form_data \<Rightarrow> jsstring \<Rightarrow> jsstring option" where
  "form_get fd name = map_of fd name"

definition form_getAll :: "form_data \<Rightarrow> jsstring \<Rightarrow> jsstring list" where
  "form_getAll fd name = map snd (filter (\<lambda>entry. fst entry = name) fd)"

text \<open>\<open>Array.prototype.indexOf\<close>: the first index of an element, \<open>-1\<close> without one.\<close>

fun index_from :: "'a list \<Rightarrow> 'a \<Rightarrow> int \<Rightarrow> int" where
  "index_from [] x i = - 1"
| "index_from (y # ys) x i = (if y = x then i else index_from ys x (i + 1))"

definition indexOf :: "'a list \<Rightarrow> 'a \<Rightarrow> int" where
  "indexOf xs x = index_from xs x 0"

text \<open>\<open>Array.prototype.filter\<close> with a callback that reads the index and the array.\<close>

definition filter_indexed :: "('a \<Rightarrow> int \<Rightarrow> 'a list \<Rightarrow> bool) \<Rightarrow> 'a list \<Rightarrow> 'a list" where
  "filter_indexed f self =
     map fst (filter (\<lambda>(x, i). f x i self) (zip self (map int [0..<length self])))"

section \<open>Poll actions (app/lib/actions/poll-actions.ts)\<close>

definition err_question :: jsstring where
  "err_question = str ''Please provide a valid question.''"

definition err_question_long :: jsstring where
  "err_question_long = str ''Question must be 500 characters or less.''"

definition err_two_options :: jsstring where
  "err_two_options = str ''Please provide at least two options.''"

definition err_max_options :: jsstring where
  "err_max_options = str ''Maximum 10 options allowed.''"

definition err_unique_options :: jsstring where
  "err_unique_options = str ''Please provide at least two unique, non-empty options.''"

definition err_option_long :: jsstring where
  "err_option_long = str ''Each option must be 200 characters or less.''"

definition err_login_create :: jsstring where
  "err_login_create = str ''You must be logged in to create a poll.''"

definition err_login_delete :: jsstring where
  "err_login_delete = str ''You must be logged in to delete a poll.''"

definition err_not_owner :: jsstring where
  "err_not_owner = str ''You can only delete your own polls.''"

definition err_update_input :: jsstring where
  "err_update_input = str ''Please provide a question and at least two options.''"

definition err_login_update :: jsstring where
  "err_login_update = str ''You must be logged in to update a poll.''"

definition createPoll :: "env \<Rightarrow> form_data \<Rightarrow> db \<Rightarrow> jsstring option \<times> db" where
  "createPoll e formData d =
     (let options = filter (\<lambda>opt. opt \<noteq> []) (form_getAll formData (str ''options''))
      in case form_get formData (str ''question'') of
           None \<Rightarrow> (Some err_question, d)
         | Some question \<Rightarrow>
      if question = [] \<or> length (trim question) = 0 then (Some err_question, d)
      else if length (trim question) > 500 then (Some err_question_long, d)
      else if length options < 2 then (Some err_two_options, d)
      else if length options > 10 then (Some err_max_options, d)
      else
        let validOptions =
              filter_indexed (\<lambda>opt index self. indexOf self opt = index)
                (map trim (filter (\<lambda>opt. length (trim opt) > 0) options))
        in
        if length validOptions < 2 then (Some err_unique_options, d)
        else if list_ex (\<lambda>opt. length opt > 200) validOptions then (Some err_option_long, d)
        else
          let sanitizedQuestion =
                replace_all False any_tag [] (replace_all True script_block [] (trim question));
              sanitizedOptions =
                map (\<lambda>opt. replace_all False any_tag [] (replace_all True script_block [] opt))
                  validOptions;
              ((user, userError), d1) = auth_getUser e d
          in (case userError of
                Some message \<Rightarrow> (Some message, d1)
              | None \<Rightarrow>
                  (case user of
                     None \<Rightarrow> (Some err_login_create, d1)
                   | Some uid \<Rightarrow>
                       (let (error, d2) = insert_poll e uid sanitizedQuestion sanitizedOptions d1
                        in (case error of
                              Some message \<Rightarrow> (Some message, d2)
                            | None \<Rightarrow> (None, revalidatePath (str ''/polls'') d2))))))"

definition submitVote :: "env \<Rightarrow> jsstring \<Rightarrow> int \<Rightarrow> db \<Rightarrow> jsstring option \<times> db" where
  "submitVote e pollId optionIndex d =
     (let ((user, userError), d1) = auth_getUser e d;
          (error, d2) = insert_vote e pollId user optionIndex d1
      in case error of
           Some message \<Rightarrow> (Some message, d2)
         | None \<Rightarrow> (None, d2))"

definition deletePoll :: "env \<Rightarrow> jsstring \<Rightarrow> db \<Rightarrow> jsstring option \<times> db" where
  "deletePoll e pid d =
     (let ((user, userError), d1) = auth_getUser e d
      in case user of
           None \<Rightarrow> (Some err_login_delete, d1)
         | Some uid \<Rightarrow>
             (let (poll_owner, d2) = select_poll_owner e pid d1
              in if poll_owner = None \<or> poll_owner \<noteq> Some uid then (Some err_not_owner, d2)
                 else
                   let (error, d3) = delete_poll e pid d2
                   in case error of
                        Some message \<Rightarrow> (Some message, d3)
                      | None \<Rightarrow> (None, revalidatePath (str ''/polls'') d3)))"

definition updatePoll :: "env \<Rightarrow> jsstring \<Rightarrow> form_data \<Rightarrow> db \<Rightarrow> jsstring option \<times> db" where
  "updatePoll e pollId formData d =
     (let options = filter (\<lambda>opt. opt \<noteq> []) (form_getAll formData (str ''options''))
      in case form_get formData (str ''question'') of
           None \<Rightarrow> (Some err_update_input, d)
         | Some question \<Rightarrow>
      if question = [] \<or> length options < 2 then (Some err_update_input, d)
      else
        let ((user, userError), d1) = auth_getUser e d
        in (case userError of
              Some message \<Rightarrow> (Some message, d1)
            | None \<Rightarrow>
                (case user of
                   None \<Rightarrow> (Some err_login_update, d1)
                 | Some uid \<Rightarrow>
                     (let (error, d2) = update_poll e question options pollId uid d1
                      in (case error of
                            Some message \<Rightarrow> (Some message, d2)
                          | None \<Rightarrow> (None, d2))))))"

text \<open>The messages with which \<open>createPoll\<close> refuses its input.\<close>

definition create_validation_errors :: "jsstring list" where
  "create_validation_errors =
     [err_question, err_question_long, err_two_options, err_max_options, err_unique_options,
      err_option_long]"

section \<open>Example data\<close>

definition alice :: jsstring where
  "alice = str ''user-alice''"

definition bob :: jsstring where
  "bob = str ''user-bob''"

definition signed_in :: "jsstring \<Rightarrow> env" where
  "signed_in uid =
     \<lparr>auth_user = Some uid, auth_error = None, select_error = False, write_error = None,
      new_id = str ''poll-2''\<rparr>"

definition anonymous :: env where
  "anonymous =
     \<lparr>auth_user = None, auth_error = None, select_error = False, write_error = None,
      new_id = str ''poll-2''\<rparr>"

definition alices_poll :: poll where
  "alices_poll =
     \<lparr>p_id = str ''poll-1'', p_user_id = alice, p_question = str ''Tea or coffee?'',
      p_options = [str ''Tea'', str ''Coffee'']\<rparr>"

definition one_poll :: db where
  "one_poll = \<lparr>polls = [alices_poll], votes = [], calls = []\<rparr>"

definition markup_form :: form_data where
  "markup_form =
     [(str ''question'', str '' <b>Tea</b> or <script>x</script>coffee? ''),
      (str ''options'', str ''<i>Tea</i>''), (str ''options'', str '' Coffee '')]"

definition scheme_form :: form_data where
  "scheme_form =
     [(str ''question'', str ''javascript:alert(1)''), (str ''options'', str ''yes''),
      (str ''options'', str ''no'')]"

definition repeated_option_form :: form_data where
  "repeated_option_form =
     [(str ''question'', str ''Tea?''), (str ''options'', str ''yes''),
      (str ''options'', str '' yes ''), (str ''options'', str ''  '')]"

definition blank_option_form :: form_data where
  "blank_option_form =
     [(str ''question'', str ''Tea?''), (str ''options'', str ''yes''), (str ''options'', str '''')]"

definition raw_form :: form_data where
  "raw_form =
     [(str ''question'', str '' <b>Tea?</b> ''), (str ''options'', str '' yes ''),
      (str ''options'', str '' yes ''), (str ''options'', str ''<i>'')]"

section \<open>Evaluation\<close>

lemmas regex_eval = str_def ch_def lit_def seqs_def plus_def match_at_def canonicalize_def
  case_variants_def class_has_def is_word_char_def is_space_def white_space_def replace_all_def
  replace_from.simps regex_test_def matches.simps(9)

lemmas example_eval = alice_def bob_def signed_in_def anonymous_def alices_poll_def one_poll_def
  markup_form_def scheme_form_def repeated_option_form_def blank_option_form_def raw_form_def
  form_get_def form_getAll_def

section \<open>Properties of the security utilities\<close>

text \<open>
  Claim C7. \<open>sanitizeHTML\<close> turns \<^verbatim>\<open><script>alert(1)</script>hello\<close> into \<open>hello\<close>, and
  \<^verbatim>\<open><img src=x onerror=alert(1)>\<close> into the empty string.
\<close>

theorem sanitizeHTML_examples:
  "sanitizeHTML (str ''<script>alert(1)</script>hello'') = str ''hello'' \<and>
   sanitizeHTML (str ''<img src=x onerror=alert(1)>'') = []"
  by (simp add: sanitizeHTML_def script_block_def any_tag_def javascript_scheme_def
      event_handler_def regex_eval)

text \<open>
  Claim C9. With no attempt stored for the key, five calls of \<open>checkRateLimit(key, 5, 60000)\<close>
  within one window of 60000 ms are allowed, a sixth in the same window is refused, and a
  call made once the five recorded attempts are at least 60000 ms old is allowed again.
\<close>

theorem checkRateLimit_window:
  assumes "st key = None \<or> st key = Some (Timestamps [])"
    and "t1 \<le> t2" and "t2 \<le> t3" and "t3 \<le> t4" and "t4 \<le> t5" and "t5 \<le> t6"
    and "t6 - t1 < 60000" and "60000 \<le> t7 - t5"
  shows "rate_limit_calls st key [t1, t2, t3, t4, t5, t6, t7] =
    [Inr True, Inr True, Inr True, Inr True, Inr True, Inr False, Inr True]"
  using assms by (auto simp add: checkRateLimit_def)

theorem checkRateLimit_window_witness:
  "rate_limit_calls Map.empty (str ''login'') [0, 10, 20, 30, 40, 59999, 60040] =
    [Inr True, Inr True, Inr True, Inr True, Inr True, Inr False, Inr True]"
  using checkRateLimit_window [of Map.empty "str ''login''" 0 10 20 30 40 59999 60040]
  by simp

subsection \<open>Where a match can end\<close>

text \<open>
  A match ends at or behind the position where it starts: in \<open>replace_from\<close> and under
  a star, a shorter rest is a match that consumed something.
\<close>

lemma matches_suffix:
  "q \<in> set (matches ic r p) \<Longrightarrow> suffix (snd q) (snd p)"
proof (induction ic r p arbitrary: q rule: matches.induct)
  case (8 ic r1 r2 p)
  then obtain m where m: "m \<in> set (matches ic r1 p)" and q: "q \<in> set (matches ic r2 m)"
    by auto
  from "8.IH"(1) [OF m] "8.IH"(2) [OF m q] show ?case
    by (rule suffix_order.trans [rotated])
next
  case (9 ic r p)
  from "9.prems" have "q = p \<or> (\<exists>m \<in> set (matches ic r p).
      length (snd m) < length (snd p) \<and> q \<in> set (matches ic (Star r) m))"
    by (subst (asm) matches.simps(9)) (auto split: if_splits)
  then show ?case
  proof
    assume "q = p"
    then show ?thesis by simp
  next
    assume "\<exists>m \<in> set (matches ic r p).
      length (snd m) < length (snd p) \<and> q \<in> set (matches ic (Star r) m)"
    then obtain m where m: "m \<in> set (matches ic r p)" and l: "length (snd m) < length (snd p)"
      and q: "q \<in> set (matches ic (Star r) m)" by blast
    from "9.IH"(1) [OF m] "9.IH"(2) [OF m l q] show ?thesis
      by (rule suffix_order.trans [rotated])
  qed
qed (auto split: list.splits if_splits simp: suffix_Cons Let_def)

lemma star_class_Nil: "matches ic (Star (Cls neg items)) (prev, []) = [(prev, [])]"
  by (subst matches.simps(9)) simp

lemma star_class_Cons:
  "matches ic (Star (Cls neg items)) (prev, c # cs) =
     (if class_has ic items c \<noteq> neg
      then matches ic (Star (Cls neg items)) (Some c, cs) @ [(prev, c # cs)]
      else [(prev, c # cs)])"
  by (subst matches.simps(9)) simp

lemma in_matches_Seq:
  "q \<in> set (matches ic (Seq a b) p) \<longleftrightarrow> (\<exists>m \<in> set (matches ic a p). q \<in> set (matches ic b m))"
  by auto

lemma in_matches_Cls:
  "q \<in> set (matches ic (Cls neg items) (prev, s)) \<longleftrightarrow>
     (\<exists>c t. s = c # t \<and> class_has ic items c \<noteq> neg \<and> q = (Some c, t))"
  by (auto split: list.splits)

lemma in_matches_Star_Cls:
  "q \<in> set (matches ic (Star (Cls neg items)) (prev, s)) \<longleftrightarrow>
     (\<exists>u t. s = u @ t \<and> list_all (\<lambda>c. class_has ic items c \<noteq> neg) u \<and>
        q = ((if u = [] then prev else Some (last u)), t))"
proof (induction s arbitrary: prev)
  case Nil
  show ?case by (auto simp: star_class_Nil)
next
  case (Cons c cs)
  let ?P = "\<lambda>c. class_has ic items c \<noteq> neg"
  show ?case
  proof (cases "?P c")
    case True
    have "q \<in> set (matches ic (Star (Cls neg items)) (prev, c # cs)) \<longleftrightarrow>
        q \<in> set (matches ic (Star (Cls neg items)) (Some c, cs)) \<or> q = (prev, c # cs)"
      using True by (auto simp add: star_class_Cons)
    also have "\<dots> \<longleftrightarrow> (\<exists>u t. cs = u @ t \<and> list_all ?P u \<and>
        q = ((if u = [] then Some c else Some (last u)), t)) \<or> q = (prev, c # cs)"
      by (simp only: Cons.IH)
    also have "\<dots> \<longleftrightarrow> (\<exists>u t. c # cs = u @ t \<and> list_all ?P u \<and>
        q = ((if u = [] then prev else Some (last u)), t))" (is "?L \<longleftrightarrow> ?R")
    proof
      assume ?L
      then show ?R
      proof
        assume "\<exists>u t. cs = u @ t \<and> list_all ?P u \<and>
          q = ((if u = [] then Some c else Some (last u)), t)"
        then obtain u t where "cs = u @ t" "list_all ?P u"
          "q = ((if u = [] then Some c else Some (last u)), t)" by blast
        with True show ?R
          by (intro exI [of _ "c # u"] exI [of _ t]) auto
      next
        assume "q = (prev, c # cs)"
        then show ?R
          by (intro exI [of _ "[]"] exI [of _ "c # cs"]) auto
      qed
    next
      assume ?R
      then obtain u t where *: "c # cs = u @ t" "list_all ?P u"
          "q = ((if u = [] then prev else Some (last u)), t)" by blast
      show ?L
      proof (cases u)
        case Nil
        with * show ?thesis by auto
      next
        case (Cons a u')
        with * have "cs = u' @ t \<and> list_all ?P u' \<and>
          q = ((if u' = [] then Some c else Some (last u')), t)" by auto
        then show ?thesis by blast
      qed
    qed
    finally show ?thesis .
  next
    case False
    have "q \<in> set (matches ic (Star (Cls neg items)) (prev, c # cs)) \<longleftrightarrow> q = (prev, c # cs)"
      using False by (auto simp add: star_class_Cons)
    also have "\<dots> \<longleftrightarrow> (\<exists>u t. c # cs = u @ t \<and> list_all ?P u \<and>
        q = ((if u = [] then prev else Some (last u)), t))" (is "?L \<longleftrightarrow> ?R")
    proof
      assume ?L
      then show ?R by (intro exI [of _ "[]"] exI [of _ "c # cs"]) auto
    next
      assume ?R
      then obtain u t where *: "c # cs = u @ t" "list_all ?P u"
          "q = ((if u = [] then prev else Some (last u)), t)" by blast
      with False show ?L by (cases u) auto
    qed
    finally show ?thesis .
  qed
qed

lemma in_matches_atom:
  "q \<in> set (matches False not_space_or_at (prev, s)) \<longleftrightarrow>
     (\<exists>c t. s = c # t \<and> email_char c \<and> q = (Some c, t))"
  unfolding not_space_or_at_def in_matches_Cls
  by (simp add: class_has_def email_char_def)

lemma in_matches_atoms:
  "q \<in> set (matches False (Star not_space_or_at) (prev, s)) \<longleftrightarrow>
     (\<exists>u t. s = u @ t \<and> list_all email_char u \<and> q = ((if u = [] then prev else Some (last u)), t))"
  unfolding not_space_or_at_def in_matches_Star_Cls
  by (simp add: class_has_def email_char_def [abs_def])

lemma in_matches_run:
  "q \<in> set (matches False (Seq not_space_or_at (Seq (Star not_space_or_at) r)) (prev, s)) \<longleftrightarrow>
   (\<exists>u t. s = u @ t \<and> u \<noteq> [] \<and> list_all email_char u \<and>
      q \<in> set (matches False r (Some (last u), t)))" (is "?L \<longleftrightarrow> ?R")
proof
  assume ?L
  then obtain m where m: "m \<in> set (matches False not_space_or_at (prev, s))"
    and q: "q \<in> set (matches False (Seq (Star not_space_or_at) r) m)"
    unfolding in_matches_Seq [of q False not_space_or_at] by blast
  from m obtain c t where s: "s = c # t" and c: "email_char c" and m': "m = (Some c, t)"
    unfolding in_matches_atom by blast
  from q obtain n where n: "n \<in> set (matches False (Star not_space_or_at) (Some c, t))"
    and q': "q \<in> set (matches False r n)"
    unfolding m' in_matches_Seq [of q False "Star not_space_or_at"] by blast
  from n obtain u t' where t: "t = u @ t'" and u: "list_all email_char u"
    and n': "n = ((if u = [] then Some c else Some (last u)), t')"
    unfolding in_matches_atoms by blast
  have "n = (Some (last (c # u)), t')"
    using n' by simp
  with s c t u q' show ?R
    by (intro exI [of _ "c # u"] exI [of _ t']) simp
next
  assume ?R
  then obtain u t where s: "s = u @ t" and "u \<noteq> []" and all: "list_all email_char u"
    and q: "q \<in> set (matches False r (Some (last u), t))" by blast
  then obtain c u' where u: "u = c # u'" by (cases u) auto
  have m: "(Some c, u' @ t) \<in> set (matches False not_space_or_at (prev, s))"
    unfolding in_matches_atom using s u all by simp
  have "((if u' = [] then Some c else Some (last u')), t) \<in>
      set (matches False (Star not_space_or_at) (Some c, u' @ t))"
    unfolding in_matches_atoms using u all by auto
  then have n: "(Some (last u), t) \<in> set (matches False (Star not_space_or_at) (Some c, u' @ t))"
    using u by (cases "u' = []") simp_all
  from n q have "q \<in> set (matches False (Seq (Star not_space_or_at) r) (Some c, u' @ t))"
    unfolding in_matches_Seq [of q False "Star not_space_or_at"] by blast
  with m show ?L
    unfolding in_matches_Seq [of q False not_space_or_at] by blast
qed

lemma in_matches_char:
  "q \<in> set (matches False (Seq (Chr a) r) (prev, s)) \<longleftrightarrow>
     (\<exists>t. s = a # t \<and> q \<in> set (matches False r (Some a, t)))"
  by (auto split: list.splits)

lemma in_matches_start:
  "q \<in> set (matches False (Seq AssertStart r) (prev, s)) \<longleftrightarrow>
     prev = None \<and> q \<in> set (matches False r (prev, s))"
  by auto

lemma in_matches_end:
  "q \<in> set (matches False (Seq AssertEnd Eps) (prev, s)) \<longleftrightarrow> s = [] \<and> q = (prev, [])"
  by auto

lemma emailRegex_unfolded:
  "emailRegex =
     Seq AssertStart (Seq not_space_or_at (Seq (Star not_space_or_at)
       (Seq (Chr (ch CHR ''@'')) (Seq not_space_or_at (Seq (Star not_space_or_at)
         (Seq (Chr (ch CHR ''.'')) (Seq not_space_or_at (Seq (Star not_space_or_at)
           (Seq AssertEnd Eps)))))))))"
  by (simp add: emailRegex_def seqs_def plus_def)

lemma ex_run:
  "(\<exists>q. q \<in> set (matches False (Seq not_space_or_at (Seq (Star not_space_or_at) r)) (prev, s))) \<longleftrightarrow>
   (\<exists>u t. s = u @ t \<and> u \<noteq> [] \<and> list_all email_char u \<and>
      (\<exists>q. q \<in> set (matches False r (Some (last u), t))))"
  unfolding in_matches_run by blast

lemma ex_char:
  "(\<exists>q. q \<in> set (matches False (Seq (Chr a) r) (prev, s))) \<longleftrightarrow>
     (\<exists>t. s = a # t \<and> (\<exists>q. q \<in> set (matches False r (Some a, t))))"
  unfolding in_matches_char by blast

lemma ex_start:
  "(\<exists>q. q \<in> set (matches False (Seq AssertStart r) (prev, s))) \<longleftrightarrow>
     prev = None \<and> (\<exists>q. q \<in> set (matches False r (prev, s)))"
  unfolding in_matches_start by blast

lemma ex_end:
  "(\<exists>q. q \<in> set (matches False (Seq AssertEnd Eps) (prev, s))) \<longleftrightarrow> s = []"
  unfolding in_matches_end by blast

lemma email_matches:
  "matches False emailRegex (None, s) \<noteq> [] \<longleftrightarrow>
   (\<exists>u v w. s = u @ ch CHR ''@'' # v @ ch CHR ''.'' # w \<and> u \<noteq> [] \<and> v \<noteq> [] \<and> w \<noteq> [] \<and>
      list_all email_char u \<and> list_all email_char v \<and> list_all email_char w)"
proof -
  have "matches False emailRegex (None, s) \<noteq> [] \<longleftrightarrow>
      (\<exists>q. q \<in> set (matches False emailRegex (None, s)))"
    by (cases "matches False emailRegex (None, s)") auto
  also have "\<dots> \<longleftrightarrow> (\<exists>u v w. s = u @ ch CHR ''@'' # v @ ch CHR ''.'' # w \<and> u \<noteq> [] \<and> v \<noteq> [] \<and> w \<noteq> [] \<and>
      list_all email_char u \<and> list_all email_char v \<and> list_all email_char w)"
    unfolding emailRegex_unfolded ex_start ex_run ex_char ex_end
    apply simp
    apply blast
    done
  finally show ?thesis .
qed

lemma search_after_start: "search False emailRegex (Some c) s = False"
  by (induction s arbitrary: c) (simp_all add: emailRegex_unfolded)

lemma isValidEmail_matches: "isValidEmail s = (matches False emailRegex (None, s) \<noteq> [])"
  by (cases s) (simp_all add: isValidEmail_def regex_test_def search_after_start)


lemma email_char_run:
  "list_all email_char u \<longleftrightarrow> list_all (\<lambda>c. \<not> is_space c) u \<and> count_list u (ch CHR ''@'') = 0"
  by (auto simp add: email_char_def list_all_iff count_list_0_iff)

lemma dot_not_at: "ch CHR ''.'' \<noteq> ch CHR ''@''"
  by (simp add: ch_def)

text \<open>
  Claim C8. \<open>isValidEmail\<close> holds of exactly the strings made of a non-empty run of
  non-whitespace code units, \<open>@\<close>, a second such run, \<open>.\<close> and a third such run, with
  \<open>@\<close> occurring once in the string. It holds of \<open>a@b.co\<close> and fails for \<open>a@b\<close>,
  \<open>a.b@\<close> and \<open>a b@c.d\<close>.
\<close>

theorem isValidEmail_shape:
  "isValidEmail s =
     (\<exists>u v w. s = u @ str ''@'' @ v @ str ''.'' @ w \<and> u \<noteq> [] \<and> v \<noteq> [] \<and> w \<noteq> [] \<and>
        list_all (\<lambda>c. \<not> is_space c) u \<and> list_all (\<lambda>c. \<not> is_space c) v \<and>
        list_all (\<lambda>c. \<not> is_space c) w \<and> count_list s (ch CHR ''@'') = 1) \<and>
   isValidEmail (str ''a@b.co'') \<and> \<not> isValidEmail (str ''a@b'') \<and>
   \<not> isValidEmail (str ''a.b@'') \<and> \<not> isValidEmail (str ''a b@c.d'')"
proof -
  have "isValidEmail s =
     (\<exists>u v w. s = u @ str ''@'' @ v @ str ''.'' @ w \<and> u \<noteq> [] \<and> v \<noteq> [] \<and> w \<noteq> [] \<and>
        list_all (\<lambda>c. \<not> is_space c) u \<and> list_all (\<lambda>c. \<not> is_space c) v \<and>
        list_all (\<lambda>c. \<not> is_space c) w \<and> count_list s (ch CHR ''@'') = 1)"
    unfolding isValidEmail_matches email_matches email_char_run
    using dot_not_at by (auto simp add: str_def; blast)
  moreover have "isValidEmail (str ''a@b.co'')"
    by (simp add: isValidEmail_def emailRegex_def not_space_or_at_def regex_eval)
  moreover have "\<not> isValidEmail (str ''a@b'')"
    by (simp add: isValidEmail_def emailRegex_def not_space_or_at_def regex_eval)
  moreover have "\<not> isValidEmail (str ''a.b@'')"
    by (simp add: isValidEmail_def emailRegex_def not_space_or_at_def regex_eval)
  moreover have "\<not> isValidEmail (str ''a b@c.d'')"
    by (simp add: isValidEmail_def emailRegex_def not_space_or_at_def regex_eval)
  ultimately show ?thesis by simp
qed

subsection \<open>Replacing in file names\<close>

lemma replace_from_class:
  "replace_from ic (Cls neg items) rep prev s =
     concat (map (\<lambda>c. if class_has ic items c \<noteq> neg then rep else [c]) s)"
proof (induction s arbitrary: prev)
  case Nil
  show ?case by (subst replace_from.simps) (simp add: match_at_def)
next
  case (Cons c cs)
  show ?case by (subst replace_from.simps) (simp add: match_at_def Cons.IH)
qed

lemma dot_dot_matches:
  "matches False dot_dot (prev, s) =
     (case s of a # b # cs \<Rightarrow> if a = ch CHR ''.'' \<and> b = ch CHR ''.'' then [(Some b, cs)] else []
      | _ \<Rightarrow> [])"
  by (simp add: dot_dot_def seqs_def split: list.split)

lemma replace_dot_dot_Nil: "replace_from False dot_dot rep prev [] = []"
  by (subst replace_from.simps) (simp add: match_at_def dot_dot_matches)

lemma replace_dot_dot_single: "replace_from False dot_dot rep prev [c] = [c]"
  by (subst replace_from.simps) (simp add: match_at_def dot_dot_matches replace_dot_dot_Nil)

lemma replace_dot_dot_pair:
  "replace_from False dot_dot rep prev (ch CHR ''.'' # ch CHR ''.'' # cs) =
     rep @ replace_from False dot_dot rep (Some (ch CHR ''.'')) cs"
  by (subst replace_from.simps) (simp add: match_at_def dot_dot_matches)

lemma replace_dot_dot_other:
  "b \<noteq> ch CHR ''.'' \<Longrightarrow>
   replace_from False dot_dot rep prev (b # cs) = b # replace_from False dot_dot rep (Some b) cs"
  by (subst replace_from.simps) (simp add: match_at_def dot_dot_matches split: list.split)

lemma replace_dot_dot_dot_other:
  "b \<noteq> ch CHR ''.'' \<Longrightarrow>
   replace_from False dot_dot rep prev (a # b # cs) =
     a # b # replace_from False dot_dot rep (Some b) cs"
  by (subst replace_from.simps)
     (simp add: match_at_def dot_dot_matches replace_dot_dot_other split: list.split)

lemma underscore_not_dot: "ch CHR ''_'' \<noteq> ch CHR ''.''"
  by (simp add: ch_def)

lemma no_dot_dot:
  "\<not> sublist [ch CHR ''.'', ch CHR ''.''] (replace_from False dot_dot [ch CHR ''_''] prev s)"
proof (induction s arbitrary: prev rule: induct_list012)
  case 1
  show ?case by (simp add: replace_dot_dot_Nil)
next
  case (2 x)
  show ?case by (simp add: replace_dot_dot_single sublist_Cons_right)
next
  case (3 x y zs)
  show ?case
  proof (cases "y = ch CHR ''.''")
    case y: True
    show ?thesis
    proof (cases "x = ch CHR ''.''")
      case True
      with y 3 underscore_not_dot show ?thesis
        by (simp add: replace_dot_dot_pair sublist_Cons_right)
    next
      case False
      with 3 show ?thesis
        by (simp add: replace_dot_dot_other sublist_Cons_right)
    qed
  next
    case False
    have "\<not> sublist [ch CHR ''.'', ch CHR ''.'']
        (replace_from False dot_dot [ch CHR ''_''] (Some x) (y # zs))"
      by (rule 3)
    with False show ?thesis
      by (simp add: replace_dot_dot_dot_other replace_dot_dot_other sublist_Cons_right)
  qed
qed

lemma replace_dot_dot_set:
  "set (replace_from False dot_dot rep prev s) \<subseteq> set s \<union> set rep"
proof (induction s arbitrary: prev rule: induct_list012)
  case 1
  show ?case by (simp add: replace_dot_dot_Nil)
next
  case (2 x)
  show ?case by (simp add: replace_dot_dot_single)
next
  case (3 x y zs)
  show ?case
  proof (cases "x = ch CHR ''.'' \<and> y = ch CHR ''.''")
    case True
    with 3(1) [of "Some (ch CHR ''.'')"] show ?thesis
      by (auto simp add: replace_dot_dot_pair)
  next
    case False
    have *: "replace_from False dot_dot rep prev (x # y # zs) =
        x # replace_from False dot_dot rep (Some x) (y # zs)"
      using False
      by (subst replace_from.simps) (auto simp add: match_at_def dot_dot_matches)
    from 3(2) [of "Some x"] show ?thesis
      by (auto simp add: *)
  qed
qed

lemma first_pass_chars:
  "list_all file_char (replace_all False unsafe_file_char (str ''_'') s)"
  by (induction s)
    (auto simp add: replace_all_def unsafe_file_char_def replace_from_class class_has_def
      file_char_def str_def)

text \<open>
  Claim C10. Whatever the input, the result of \<open>sanitizeFileName\<close> consists of ASCII
  letters, digits, \<open>.\<close>, \<open>-\<close> and \<open>_\<close> only, and \<open>..\<close> does not occur in it.
\<close>

theorem sanitizeFileName_safe:
  "list_all file_char (sanitizeFileName s) \<and> \<not> sublist (str ''..'') (sanitizeFileName s)"
proof -
  have "set (sanitizeFileName s) \<subseteq>
      set (replace_all False unsafe_file_char (str ''_'') s) \<union> set (str ''_'')"
    unfolding sanitizeFileName_def replace_all_def [of False dot_dot]
    by (rule replace_dot_dot_set)
  moreover have "file_char (ch CHR ''_'')"
    by (simp add: file_char_def)
  ultimately have "list_all file_char (sanitizeFileName s)"
    using first_pass_chars [of s] by (auto simp add: list_all_iff str_def)
  moreover have "\<not> sublist (str ''..'') (sanitizeFileName s)"
    using no_dot_dot [of None "replace_all False unsafe_file_char (str ''_'') s"]
    by (simp add: sanitizeFileName_def replace_all_def [of False dot_dot] str_def)
  ultimately show ?thesis by simp
qed

section \<open>Properties of the poll actions\<close>

lemma update_miss:
  "\<not> list_ex (\<lambda>p. p_id p = pid \<and> p_user_id p = uid) ps \<Longrightarrow>
   map (\<lambda>p. if p_id p = pid \<and> p_user_id p = uid
             then p\<lparr>p_question := q, p_options := os\<rparr> else p) ps = ps"
  by (induction ps) auto

text \<open>
  Claim C1. When the caller is signed in and the lookup of the poll's owner finds no poll,
  or an owner other than the caller, \<open>deletePoll\<close> answers "You can only delete your own
  polls.": the only calls it makes are the identity lookup and the owner lookup, no delete,
  and no row changes.
\<close>

theorem deletePoll_not_owner:
  assumes "auth_user e = Some uid"
    and "select_error e \<or> owner_of (polls d) pid = None \<or> owner_of (polls d) pid \<noteq> Some uid"
  shows "deletePoll e pid d =
    (Some err_not_owner, d\<lparr>calls := calls d @ [AuthGetUser, PollsSelectOwner pid]\<rparr>)"
  using assms
  by (auto simp add: deletePoll_def auth_getUser_def select_poll_owner_def called_def)

theorem deletePoll_not_owner_witness:
  "deletePoll (signed_in bob) (str ''poll-1'') one_poll =
    (Some err_not_owner,
     one_poll\<lparr>calls := calls one_poll @ [AuthGetUser, PollsSelectOwner (str ''poll-1'')]\<rparr>)"
  using deletePoll_not_owner [of "signed_in bob" bob one_poll "str ''poll-1''"]
  by (simp add: example_eval owner_of_def str_def ch_def)

text \<open>
  Claim C3. For a signed-in caller and an input that passes the checks of \<open>updatePoll\<close>,
  the one update sent to the backend is filtered by the poll id and by the caller's id; when
  no poll with that id belongs to the caller and the backend reports success, no row
  changes and the error returned is \<open>null\<close>.
\<close>

theorem updatePoll_owner_filter:
  assumes "auth_user e = Some uid" and "auth_error e = None" and "write_error e = None"
    and "form_get fd (str ''question'') = Some q" and "q \<noteq> []"
    and "options = filter (\<lambda>opt. opt \<noteq> []) (form_getAll fd (str ''options''))"
    and "2 \<le> length options"
  shows "calls (snd (updatePoll e pid fd d)) =
      calls d @ [AuthGetUser, PollsUpdate q options pid uid] \<and>
    (\<not> list_ex (\<lambda>p. p_id p = pid \<and> p_user_id p = uid) (polls d) \<longrightarrow>
       updatePoll e pid fd d =
         (None, d\<lparr>calls := calls d @ [AuthGetUser, PollsUpdate q options pid uid]\<rparr>))"
  using assms
  by (simp add: updatePoll_def auth_getUser_def update_poll_def called_def Let_def update_miss)

theorem updatePoll_owner_filter_witness:
  "updatePoll (signed_in bob) (str ''poll-1'')
     [(str ''question'', str ''Mine now?''), (str ''options'', str ''yes''),
      (str ''options'', str ''no'')] one_poll =
   (None, one_poll\<lparr>calls := calls one_poll @
      [AuthGetUser, PollsUpdate (str ''Mine now?'') [str ''yes'', str ''no''] (str ''poll-1'') bob]\<rparr>)"
  using updatePoll_owner_filter [of "signed_in bob" bob
      "[(str ''question'', str ''Mine now?''), (str ''options'', str ''yes''),
        (str ''options'', str ''no'')]"
      "str ''Mine now?''" "[str ''yes'', str ''no'']" "str ''poll-1''" one_poll]
  by (simp add: example_eval str_def ch_def)

text \<open>
  Claim C6. Without a resolved identity and with a backend that accepts the insert,
  \<open>submitVote\<close> returns no error and adds exactly one vote, with an absent voter id and
  the option index as given, whatever the poll id and the index are.
\<close>

theorem submitVote_anonymous:
  assumes "auth_user e = None" and "write_error e = None"
  shows "submitVote e pollId optionIndex d =
    (None,
     d\<lparr>votes := votes d @
          [\<lparr>v_poll_id = pollId, v_user_id = None, v_option_index = optionIndex\<rparr>],
       calls := calls d @ [AuthGetUser, VotesInsert pollId None optionIndex]\<rparr>)"
  using assms by (simp add: submitVote_def auth_getUser_def insert_vote_def called_def)

theorem submitVote_anonymous_witness:
  "submitVote anonymous (str ''poll-1'') 7 one_poll =
    (None,
     one_poll\<lparr>votes := [\<lparr>v_poll_id = str ''poll-1'', v_user_id = None, v_option_index = 7\<rparr>],
       calls := [AuthGetUser, VotesInsert (str ''poll-1'') None 7]\<rparr>)"
  using submitVote_anonymous [of anonymous "str ''poll-1''" 7 one_poll]
  by (simp add: example_eval)

subsection \<open>Keeping the first occurrence of each option\<close>

lemma index_from_in:
  "y \<in> set xs \<Longrightarrow> index_from (xs @ zs) y k = index_from xs y k"
  by (induction xs arbitrary: k) auto

lemma index_from_notin:
  "y \<notin> set xs \<Longrightarrow> index_from (xs @ zs) y k = index_from zs y (k + int (length xs))"
  by (induction xs arbitrary: k) (auto simp: algebra_simps)

lemma index_from_bound: "0 \<le> k \<Longrightarrow> index_from xs y k < k + int (length xs)"
proof (induction xs arbitrary: k)
  case Nil
  then show ?case by simp
next
  case (Cons a xs)
  from Cons.IH [of "k + 1"] Cons.prems show ?case by simp
qed

lemma first_occurrences_Nil:
  "filter_indexed (\<lambda>opt index self. indexOf self opt = index) [] = []"
  by (simp add: filter_indexed_def)

lemma first_occurrences_snoc:
  "filter_indexed (\<lambda>opt index self. indexOf self opt = index) (xs @ [x]) =
   filter_indexed (\<lambda>opt index self. indexOf self opt = index) xs @
     (if x \<in> set xs then [] else [x])"
proof -
  have same: "filter (\<lambda>(y, i). indexOf (xs @ [x]) y = i) (zip xs (map int [0..<length xs])) =
      filter (\<lambda>(y, i). indexOf xs y = i) (zip xs (map int [0..<length xs]))"
    by (rule filter_cong) (auto simp: indexOf_def index_from_in dest: set_zip_leftD)
  have last_one: "(indexOf (xs @ [x]) x = int (length xs)) = (x \<notin> set xs)"
    using index_from_bound [of 0 xs x]
    by (auto simp: indexOf_def index_from_in index_from_notin)
  show ?thesis
    by (simp add: filter_indexed_def same last_one)
qed

lemma set_first_occurrences:
  "set (filter_indexed (\<lambda>opt index self. indexOf self opt = index) xs) = set xs"
  by (induction xs rule: rev_induct) (auto simp: first_occurrences_Nil first_occurrences_snoc)

lemma distinct_first_occurrences:
  "distinct (filter_indexed (\<lambda>opt index self. indexOf self opt = index) xs)"
  by (induction xs rule: rev_induct)
    (auto simp: first_occurrences_Nil first_occurrences_snoc set_first_occurrences)

lemma first_occurrences_distinct:
  "distinct xs \<Longrightarrow> filter_indexed (\<lambda>opt index self. indexOf self opt = index) xs = xs"
  by (induction xs rule: rev_induct) (auto simp: first_occurrences_Nil first_occurrences_snoc)

lemma length_first_occurrences:
  "length (filter_indexed (\<lambda>opt index self. indexOf self opt = index) xs) = card (set xs)"
  using distinct_card [OF distinct_first_occurrences, of xs]
  by (simp add: set_first_occurrences)

lemma trim_Nil: "trim [] = []"
  by (simp add: trim_def)

lemma set_trimmed:
  "set (map trim (filter (\<lambda>opt. length (trim opt) > 0) (filter (\<lambda>opt. opt \<noteq> []) supplied))) =
   set (filter (\<lambda>opt. opt \<noteq> []) (map trim supplied))"
  by (auto simp: trim_Nil)

subsection \<open>createPoll\<close>

text \<open>
  Claim C4. When the supplied options, each trimmed, the empty ones dropped and duplicates
  removed, are fewer than two, \<open>createPoll\<close> answers with one of its validation messages
  and the backend is as before: no call has been made, so no insert.
\<close>

theorem createPoll_few_options:
  assumes "length (remdups (filter (\<lambda>opt. opt \<noteq> [])
      (map trim (form_getAll fd (str ''options''))))) < 2"
  shows "list_ex (\<lambda>message. createPoll e fd d = (Some message, d)) create_validation_errors"
proof -
  let ?xs = "map trim (filter (\<lambda>opt. length (trim opt) > 0)
      (filter (\<lambda>opt. opt \<noteq> []) (form_getAll fd (str ''options''))))"
  have "length (filter_indexed (\<lambda>opt index self. indexOf self opt = index) ?xs) = card (set ?xs)"
    by (rule length_first_occurrences)
  also have "\<dots> = length (remdups (filter (\<lambda>opt. opt \<noteq> [])
      (map trim (form_getAll fd (str ''options'')))))"
    by (simp only: set_trimmed length_remdups_card_conv)
  finally have "length (filter_indexed (\<lambda>opt index self. indexOf self opt = index) ?xs) < 2"
    using assms by simp
  then show ?thesis
    by (simp add: createPoll_def create_validation_errors_def Let_def split: option.split)
qed

theorem createPoll_few_options_witness:
  "length (remdups (filter (\<lambda>opt. opt \<noteq> [])
      (map trim (form_getAll repeated_option_form (str ''options''))))) < 2 \<and>
   list_ex (\<lambda>message. createPoll (signed_in bob) repeated_option_form one_poll =
      (Some message, one_poll)) create_validation_errors"
proof -
  have few: "length (remdups (filter (\<lambda>opt. opt \<noteq> [])
      (map trim (form_getAll repeated_option_form (str ''options''))))) < 2"
    by (simp add: example_eval trim_def str_def ch_def is_space_def white_space_def)
  from few createPoll_few_options [OF few, of "signed_in bob" one_poll] show ?thesis
    by simp
qed

text \<open>
  Claim C2, as the code has it. For a question that is non-empty and at most 500 code
  units long once trimmed, and 2 to 10 options that are non-empty, pairwise distinct and at
  most 200 code units long once trimmed, \<open>createPoll\<close> with a signed-in caller and a
  backend that accepts the insert returns no error and inserts exactly one poll, owned by
  the caller. The question and the options it stores are the trimmed inputs with the script
  blocks removed and then every remaining tag: the first two of the four replacements of
  \<open>sanitizeHTML\<close>.
\<close>

theorem createPoll_stores_stripped:
  assumes "form_get fd (str ''question'') = Some question"
    and "trim question \<noteq> []" and "length (trim question) \<le> 500"
    and "form_getAll fd (str ''options'') = options"
    and "2 \<le> length options" and "length options \<le> 10"
    and "list_all (\<lambda>opt. trim opt \<noteq> [] \<and> length (trim opt) \<le> 200) options"
    and "distinct (map trim options)"
    and "auth_user e = Some uid" and "auth_error e = None" and "write_error e = None"
    and "q' = replace_all False any_tag [] (replace_all True script_block [] (trim question))"
    and "os' = map (\<lambda>opt. replace_all False any_tag []
          (replace_all True script_block [] (trim opt))) options"
  shows "createPoll e fd d =
    (None,
     d\<lparr>polls := polls d @
          [\<lparr>p_id = new_id e, p_user_id = uid, p_question = q', p_options = os'\<rparr>],
       calls := calls d @ [AuthGetUser, PollsInsert uid q' os', RevalidatePath (str ''/polls'')]\<rparr>)"
proof -
  have ne: "list_all (\<lambda>opt. opt \<noteq> []) options"
    using assms(7) by (auto simp: list_all_iff trim_Nil)
  then have f1: "filter (\<lambda>opt. opt \<noteq> []) options = options"
    by (simp add: list_all_iff)
  have f2: "filter (\<lambda>opt. trim opt \<noteq> []) options = options"
    using assms(7) by (auto simp: list_all_iff)
  have valid: "filter_indexed (\<lambda>opt index self. indexOf self opt = index) (map trim options) =
      map trim options"
    using assms(8) by (rule first_occurrences_distinct)
  have short: "\<not> list_ex (\<lambda>opt. 200 < length opt) (map trim options)"
    using assms(7) by (auto simp: list_all_iff list_ex_iff)
  have q: "question \<noteq> []"
    using assms(2) by (auto simp: trim_Nil)
  show ?thesis
    using assms(1-6,9-13) q short
    by (simp add: createPoll_def Let_def f1 f2 valid auth_getUser_def insert_poll_def
        revalidatePath_def called_def comp_def)
qed

theorem createPoll_stores_stripped_witness:
  "createPoll (signed_in bob) markup_form one_poll =
    (None,
     one_poll\<lparr>polls := [alices_poll,
          \<lparr>p_id = str ''poll-2'', p_user_id = bob, p_question = str ''Tea or coffee?'',
           p_options = [str ''Tea'', str ''Coffee'']\<rparr>],
       calls := [AuthGetUser, PollsInsert bob (str ''Tea or coffee?'') [str ''Tea'', str ''Coffee''],
          RevalidatePath (str ''/polls'')]\<rparr>)"
  using createPoll_stores_stripped [of markup_form
      "str '' <b>Tea</b> or <script>x</script>coffee? ''"
      "[str ''<i>Tea</i>'', str '' Coffee '']" "signed_in bob" bob
      "str ''Tea or coffee?''" "[str ''Tea'', str ''Coffee'']" one_poll]
  by (simp add: example_eval trim_def script_block_def any_tag_def regex_eval)

text \<open>
  Claim C2 as stated fails: \<open>createPoll\<close> does not remove \<open>javascript:\<close>, which
  \<open>sanitizeHTML\<close> does. The input meets every condition of the claim.
\<close>

theorem createPoll_sanitize_counterexample:
  "createPoll (signed_in bob) scheme_form one_poll =
    (None,
     one_poll\<lparr>polls := [alices_poll,
          \<lparr>p_id = str ''poll-2'', p_user_id = bob, p_question = str ''javascript:alert(1)'',
           p_options = [str ''yes'', str ''no'']\<rparr>],
       calls := [AuthGetUser, PollsInsert bob (str ''javascript:alert(1)'') [str ''yes'', str ''no''],
          RevalidatePath (str ''/polls'')]\<rparr>) \<and>
   sanitizeHTML (trim (str ''javascript:alert(1)'')) = str ''alert(1)'' \<and>
   str ''javascript:alert(1)'' \<noteq> sanitizeHTML (trim (str ''javascript:alert(1)''))"
  by (simp add: createPoll_def Let_def auth_getUser_def insert_poll_def revalidatePath_def
      called_def filter_indexed_def indexOf_def sanitizeHTML_def example_eval trim_def
      script_block_def any_tag_def javascript_scheme_def event_handler_def regex_eval)

subsection \<open>updatePoll\<close>

lemma login_update_not_input: "err_login_update \<noteq> err_update_input"
  by (simp add: err_login_update_def err_update_input_def str_def ch_def)

text \<open>
  Claim C5, as the code has it. \<open>updatePoll\<close> answers with its validation message (and
  calls nothing) when the question is missing or empty or fewer than two of the supplied
  options are non-empty strings. On every other input the error it returns is the one of
  the identity lookup, else the login message, else what the update reports, \<open>null\<close> on
  success; so the validation message is returned exactly on the inputs above, unless the
  backend itself answers with that text. For a signed-in caller the update carries the
  question and the non-empty options as supplied and in order: no length cap, no
  sanitization, no trimming, no removal of duplicates.
\<close>

theorem updatePoll_validation:
  assumes "options = filter (\<lambda>opt. opt \<noteq> []) (form_getAll fd (str ''options''))"
    and "invalid = (form_get fd (str ''question'') = None \<or>
          form_get fd (str ''question'') = Some [] \<or> length options < 2)"
  shows "(invalid \<longrightarrow> updatePoll e pid fd d = (Some err_update_input, d)) \<and>
    (\<not> invalid \<and> form_get fd (str ''question'') = Some q \<longrightarrow>
       updatePoll e pid fd d =
         (case auth_error e of
            Some message \<Rightarrow> (Some message, d\<lparr>calls := calls d @ [AuthGetUser]\<rparr>)
          | None \<Rightarrow>
              (case auth_user e of
                 None \<Rightarrow> (Some err_login_update, d\<lparr>calls := calls d @ [AuthGetUser]\<rparr>)
               | Some uid \<Rightarrow>
                   (case write_error e of
                      Some message \<Rightarrow>
                        (Some message,
                         d\<lparr>calls := calls d @ [AuthGetUser, PollsUpdate q options pid uid]\<rparr>)
                    | None \<Rightarrow>
                        (None,
                         d\<lparr>calls := calls d @ [AuthGetUser, PollsUpdate q options pid uid],
                           polls := map (\<lambda>p. if p_id p = pid \<and> p_user_id p = uid
                               then p\<lparr>p_question := q, p_options := options\<rparr> else p)
                             (polls d)\<rparr>))))) \<and>
    (auth_error e \<noteq> Some err_update_input \<and> write_error e \<noteq> Some err_update_input \<longrightarrow>
       (fst (updatePoll e pid fd d) = Some err_update_input) = invalid)"
  using assms login_update_not_input
  by (auto simp add: updatePoll_def auth_getUser_def update_poll_def called_def Let_def
      split: option.splits)

theorem updatePoll_validation_witness:
  "updatePoll (signed_in alice) (str ''poll-1'') raw_form one_poll =
     (None,
      one_poll\<lparr>calls := [AuthGetUser,
          PollsUpdate (str '' <b>Tea?</b> '') [str '' yes '', str '' yes '', str ''<i>'']
            (str ''poll-1'') alice],
        polls := [alices_poll\<lparr>p_question := str '' <b>Tea?</b> '',
          p_options := [str '' yes '', str '' yes '', str ''<i>'']\<rparr>]\<rparr>) \<and>
   fst (updatePoll (signed_in alice) (str ''poll-1'') raw_form one_poll) \<noteq> Some err_update_input"
  using updatePoll_validation [of "[str '' yes '', str '' yes '', str ''<i>'']" raw_form False
      "signed_in alice" "str ''poll-1''" one_poll "str '' <b>Tea?</b> ''"]
  by (simp add: example_eval str_def ch_def)

text \<open>
  Claim C5 as stated fails: with a non-empty question and two options supplied, one of
  them the empty string, \<open>updatePoll\<close> refuses the input.
\<close>

theorem updatePoll_blank_option_counterexample:
  "form_get blank_option_form (str ''question'') = Some (str ''Tea?'') \<and>
   str ''Tea?'' \<noteq> [] \<and>
   length (form_getAll blank_option_form (str ''options'')) = 2 \<and>
   updatePoll (signed_in alice) (str ''poll-1'') blank_option_form one_poll =
     (Some err_update_input, one_poll)"
  by (simp add: updatePoll_def Let_def example_eval str_def ch_def)

end
